theory Spec2Isabelle
  imports Main "HOL-Library.AList"
begin

section \<open>JavaScript values and objects\<close>

text \<open>
  The transformer of
  \<^verbatim>\<open>src/packages/core/classes/transformer/document-client-request-transformer.ts\<close>
  builds plain JavaScript objects. A value is one of the cases below; numbers are the
  integer-valued ones. An object is the list of its own properties in enumeration order
  (insertion order for the string keys used here); reading a property that is not there
  gives \<open>undefined\<close>.
\<close>

datatype jsval =
    JUndefined
  | JNull
  | JBool bool
  | JNum int
  | JStr string
  | JArr "jsval list"
  | JObj "(string \<times> jsval) list"

type_synonym jsobject = "(string \<times> jsval) list"

text \<open>What \<^verbatim>\<open>if (v)\<close> and \<^verbatim>\<open>!v\<close> test.\<close>

fun truthy :: "jsval \<Rightarrow> bool" where
  "truthy JUndefined = False"
| "truthy JNull = False"
| "truthy (JBool b) = b"
| "truthy (JNum n) = (n \<noteq> 0)"
| "truthy (JStr s) = (s \<noteq> [])"
| "truthy (JArr xs) = True"
| "truthy (JObj kvs) = True"

text \<open>\<^verbatim>\<open>obj[key]\<close>.\<close>

definition get_prop :: "jsobject \<Rightarrow> string \<Rightarrow> jsval" where
  "get_prop obj k = (case map_of obj k of None \<Rightarrow> JUndefined | Some v \<Rightarrow> v)"

text \<open>\<^verbatim>\<open>a ?? b\<close>.\<close>

definition nullish_or :: "jsval \<Rightarrow> jsval \<Rightarrow> jsval" where
  "nullish_or a b = (case a of JUndefined \<Rightarrow> b | JNull \<Rightarrow> b | _ \<Rightarrow> a)"

text \<open>\<^verbatim>\<open>v.length\<close> of an array or a string; other values have no such property.\<close>

fun js_length :: "jsval \<Rightarrow> jsval" where
  "js_length (JArr xs) = JNum (int (length xs))"
| "js_length (JStr s) = JNum (int (length s))"
| "js_length v = JUndefined"

text \<open>
  \<^verbatim>\<open>{...a, ...b}\<close>: the properties of \<open>a\<close>, then those of \<open>b\<close>; a key of \<open>b\<close> that
  \<open>a\<close> has keeps its place and takes the value of \<open>b\<close>. \<^verbatim>\<open>{...a}\<close> is \<open>spread [] a\<close>.
\<close>

definition spread :: "jsobject \<Rightarrow> jsobject \<Rightarrow> jsobject" where
  "spread a b = foldl (\<lambda>acc kv. AList.update (fst kv) (snd kv) acc) a b"

text \<open>
  \<^verbatim>\<open>isEmptyObject\<close> (\<^verbatim>\<open>helpers/is-empty-object\<close>, not among the sources): an object
  with no property of its own.
\<close>

definition isEmptyObject :: "jsobject \<Rightarrow> bool" where
  "isEmptyObject obj = (case obj of [] \<Rightarrow> True | _ \<Rightarrow> False)"

section \<open>Errors\<close>

text \<open>
  Every \<^verbatim>\<open>throw new Error(...)\<close> of the transformer is a value of this type, named as in
  the error taxonomy of the specification (section 7):
  \<^item> \<^verbatim>\<open>'Primary could not be resolved'\<close> is \<open>PrimaryKeyUnresolvedError\<close>;
  \<^item> \<^verbatim>\<open>'All unique attributes are required, ...'\<close> is \<open>MissingUniqueAttributeValueError\<close>
    with the attribute's name;
  \<^item> \<^verbatim>\<open>'No metadata found for class ...'\<close> is \<open>NoMetadataError\<close>;
  \<^item> the \<^verbatim>\<open>new Error(``)\<close> of the unique-attribute check of the update is
    \<open>ImmutableUniqueAttributeError\<close>;
  \<^item> \<^verbatim>\<open>'Failed to build update expression, key ... is also referenced by primary key'\<close>
    is \<open>AutoGeneratedAttributeKeyCollisionError\<close> with the attribute's name;
  \<^item> \<^verbatim>\<open>'... no such index exists on table ...'\<close> and
    \<^verbatim>\<open>'... no such index exists on entity.'\<close> are \<open>IndexNotFoundError\<close> with the side;
  \<^item> \<^verbatim>\<open>'Table ... does not use composite key, thus querying a sort key is not allowed'\<close>
    is \<open>UnsupportedSortKeyConditionError\<close>;
  \<^item> \<open>UnresolvedKeyAttributeError\<close> is raised by the key template resolver.
\<close>

datatype index_side = OnTable | OnEntity

datatype error =
    UnresolvedKeyAttributeError
  | PrimaryKeyUnresolvedError
  | IndexNotFoundError index_side
  | MissingUniqueAttributeValueError string
  | ImmutableUniqueAttributeError
  | AutoGeneratedAttributeKeyCollisionError string
  | UnsupportedSortKeyConditionError
  | NoMetadataError

section \<open>Entity metadata\<close>

text \<open>
  The metadata classes (\<^verbatim>\<open>Table\<close>, \<^verbatim>\<open>IndexOptions\<close>, \<^verbatim>\<open>AttributeMetadata\<close>,
  \<^verbatim>\<open>AutoGeneratedAttributeMetadata\<close>, \<^verbatim>\<open>Connection\<close>) are imported by the transformer
  and not among the sources. The records below hold the fields the transformer reads.
  \<open>generated_value\<close> is the \<^verbatim>\<open>value\<close> of an auto-generated attribute, the
  auto-generated-value slot of section 4.4 of the specification: a stored value.
\<close>

datatype INDEX_TYPE = GSI | LSI

record IndexOptions =
  index_type :: INDEX_TYPE
  index_partitionKey :: string
  index_sortKey :: string

record Table =
  table_name :: string
  partitionKey :: string
  sortKey :: "string option"
  table_indexes :: "(string \<times> IndexOptions) list"

text \<open>\<^verbatim>\<open>table.getIndexByKey(key)\<close>.\<close>

definition getIndexByKey :: "Table \<Rightarrow> string \<Rightarrow> IndexOptions option" where
  "getIndexByKey t k = map_of (table_indexes t) k"

text \<open>
  Modelled from the spec: \<^verbatim>\<open>Table.usesCompositeKey\<close> is not among the sources. Section 3:
  a table uses a composite key iff a sort key is declared.
\<close>

definition usesCompositeKey :: "Table \<Rightarrow> bool" where
  "usesCompositeKey t = (case sortKey t of None \<Rightarrow> False | Some sk \<Rightarrow> True)"

text \<open>
  The entity schema as the transformer reads it: \<open>primaryKey\<close> maps the table's key
  attribute names to templates (\<^verbatim>\<open>schema.primaryKey[table.partitionKey]\<close>); \<open>indexes\<close>
  maps an index name to the object from that index's key attribute names to templates
  (\<^verbatim>\<open>schema.indexes[queryIndex][indexToQuery.partitionKey]\<close>). An entity that declares
  no index has the empty list.
\<close>

record EntitySchema =
  primaryKey :: jsobject
  indexes :: "(string \<times> jsobject) list"

record AutoGenerated =
  strategy :: string
  autoUpdate :: bool
  generated_value :: jsval

record AttributeMetadata =
  attr_name :: string
  attr_unique :: bool
  attr_autoGenerated :: "AutoGenerated option"

text \<open>\<^verbatim>\<open>(attr as AutoGeneratedAttributeMetadata)?.value\<close>.\<close>

definition attr_value :: "AttributeMetadata \<Rightarrow> jsval" where
  "attr_value attr = (case attr_autoGenerated attr of None \<Rightarrow> JUndefined | Some g \<Rightarrow> generated_value g)"

record EntityMetadata =
  entity_table :: Table
  entity_name :: string
  entity_schema :: EntitySchema
  entity_attributes :: "AttributeMetadata list"

text \<open>
  Modelled from the spec: the \<^verbatim>\<open>Connection\<close> class is not among the sources. Section 6:
  the schema registry is read-only and gives, for an entity type, its metadata, its unique
  attributes and its auto-generated attributes; section 7: \<open>NoMetadataError\<close> when the entity
  type has no registered schema. An entity class is identified by its name.
\<close>

type_synonym EntityTarget = string

type_synonym Connection = "EntityTarget \<Rightarrow> EntityMetadata option"

definition hasMetadata :: "Connection \<Rightarrow> EntityTarget \<Rightarrow> bool" where
  "hasMetadata conn c = (case conn c of None \<Rightarrow> False | Some m \<Rightarrow> True)"

definition getEntityByTarget :: "Connection \<Rightarrow> EntityTarget \<Rightarrow> error + EntityMetadata" where
  "getEntityByTarget conn c = (case conn c of None \<Rightarrow> Inl NoMetadataError | Some m \<Rightarrow> Inr m)"

definition getUniqueAttributesForEntity :: "Connection \<Rightarrow> EntityTarget \<Rightarrow> AttributeMetadata list" where
  "getUniqueAttributesForEntity conn c =
     (case conn c of None \<Rightarrow> [] | Some m \<Rightarrow> filter attr_unique (entity_attributes m))"

definition isAutoUpdate :: "AttributeMetadata \<Rightarrow> bool" where
  "isAutoUpdate attr = (case attr_autoGenerated attr of None \<Rightarrow> False | Some g \<Rightarrow> autoUpdate g)"

definition getAutoUpdateAttributes :: "Connection \<Rightarrow> EntityTarget \<Rightarrow> AttributeMetadata list" where
  "getAutoUpdateAttributes conn c =
     (case conn c of None \<Rightarrow> [] | Some m \<Rightarrow> filter isAutoUpdate (entity_attributes m))"

text \<open>
  \<^verbatim>\<open>BaseTransformer.getTableNameForEntity\<close> is not among the sources: the name of the
  entity's table.
\<close>

definition getTableNameForEntity :: "Connection \<Rightarrow> EntityTarget \<Rightarrow> error + string" where
  "getTableNameForEntity conn c =
     (case getEntityByTarget conn c of Inl e \<Rightarrow> Inl e | Inr m \<Rightarrow> Inr (table_name (entity_table m)))"

section \<open>Conditions and collaborators\<close>

text \<open>
  \<^verbatim>\<open>Condition\<close> and \<^verbatim>\<open>KeyCondition\<close> are builder classes that are not among the sources.
  A condition is the record of the calls made on it: \<open>attributeNotExist a\<close> is
  \<^verbatim>\<open>new Condition().attributeNotExist(a)\<close>, \<open>KC_equals n v\<close> is
  \<^verbatim>\<open>new KeyCondition().equals(n, v)\<close>, and so on; \<open>KC_merge p s\<close> is \<^verbatim>\<open>p.merge(s)\<close>.
\<close>

datatype Condition = attributeNotExist string

datatype KeyCondition =
    KC_equals string jsval
  | KC_between string jsval
  | KC_beginsWith string jsval
  | KC_addBaseOperatorCondition string string jsval
  | KC_merge KeyCondition KeyCondition

text \<open>
  An entity instance: its class (\<^verbatim>\<open>entity.constructor\<close>) and its own properties.
\<close>

record Entity =
  entity_constructor :: EntityTarget
  entity_fields :: jsobject

text \<open>
  The functions the transformer calls and that are not among the sources are parameters
  of the model: the key template resolver \<^verbatim>\<open>parseKey\<close>, the key parser
  \<^verbatim>\<open>getParsedPrimaryKey\<close>, \<^verbatim>\<open>toDynamoEntity\<close> and
  \<^verbatim>\<open>getAffectedIndexesForAttributes\<close> of \<^verbatim>\<open>BaseTransformer\<close>,
  \<^verbatim>\<open>getUniqueAttributePrimaryKey\<close>, the three methods of \<^verbatim>\<open>ExpressionBuilder\<close>, and
  \<^verbatim>\<open>autoGenerateValue\<close> of an auto-generated attribute. The first four may throw. A
  generated value is fresh (a UUID, a timestamp): \<open>autoGenerateValue\<close> reads and advances a
  generator state \<open>'w\<close> (the clock, the entropy source), which the update threads through.
\<close>

record 'w collaborators =
  parseKey :: "jsval \<Rightarrow> jsobject \<Rightarrow> error + jsval"
  getParsedPrimaryKey :: "Table \<Rightarrow> jsobject \<Rightarrow> jsobject \<Rightarrow> error + jsobject"
  toDynamoEntity :: "Entity \<Rightarrow> error + jsobject"
  getAffectedIndexesForAttributes :: "EntityTarget \<Rightarrow> jsobject \<Rightarrow> string \<Rightarrow> error + jsobject"
  getUniqueAttributePrimaryKey :: "Table \<Rightarrow> string \<Rightarrow> string \<Rightarrow> jsval \<Rightarrow> jsobject"
  buildConditionExpression :: "Condition \<Rightarrow> jsobject"
  buildKeyConditionExpression :: "KeyCondition \<Rightarrow> jsobject"
  buildUpdateExpression :: "jsobject \<Rightarrow> jsobject"
  autoGenerateValue :: "string \<Rightarrow> 'w \<Rightarrow> jsval \<times> 'w"

section \<open>Get and delete\<close>

definition toDynamoGetItem ::
  "'w collaborators \<Rightarrow> Connection \<Rightarrow> EntityTarget \<Rightarrow> jsobject \<Rightarrow> error + jsobject" where
  "toDynamoGetItem d conn entityClass pk =
     (case getEntityByTarget conn entityClass of
        Inl e \<Rightarrow> Inl e
      | Inr metadata \<Rightarrow>
          (case getTableNameForEntity conn entityClass of
             Inl e \<Rightarrow> Inl e
           | Inr tableName \<Rightarrow>
               (case getParsedPrimaryKey d (entity_table metadata)
                       (primaryKey (entity_schema metadata)) pk of
                  Inl e \<Rightarrow> Inl e
                | Inr parsedPrimaryKey \<Rightarrow>
                    if isEmptyObject parsedPrimaryKey then Inl PrimaryKeyUnresolvedError
                    else Inr [(''TableName'', JStr tableName),
                              (''Key'', JObj (spread [] parsedPrimaryKey))])))"

definition toDynamoDeleteItem ::
  "'w collaborators \<Rightarrow> Connection \<Rightarrow> EntityTarget \<Rightarrow> jsobject \<Rightarrow> error + jsobject" where
  "toDynamoDeleteItem d conn entityClass pk =
     (case getEntityByTarget conn entityClass of
        Inl e \<Rightarrow> Inl e
      | Inr metadata \<Rightarrow>
          (let tableName = table_name (entity_table metadata) in
           case getParsedPrimaryKey d (entity_table metadata)
                  (primaryKey (entity_schema metadata)) pk of
             Inl e \<Rightarrow> Inl e
           | Inr parsedPrimaryKey \<Rightarrow>
               if isEmptyObject parsedPrimaryKey then Inl PrimaryKeyUnresolvedError
               else Inr [(''TableName'', JStr tableName),
                         (''Key'', JObj (spread [] parsedPrimaryKey))]))"

section \<open>Put\<close>

record ManagerToDynamoPutItemOptions =
  overwriteIfExists :: bool

text \<open>
  \<^verbatim>\<open>toDynamoPutItem\<close> returns \<^verbatim>\<open>PutItemInput | PutItemInput[]\<close>: one request or a list.
\<close>

datatype put_result = PutItem jsobject | PutItems "jsobject list"

text \<open>
  \<^verbatim>\<open>(attr as AutoGeneratedAttributeMetadata)?.value ?? (entity as any)[attr.name]\<close>.
\<close>

definition attributeValue :: "Entity \<Rightarrow> AttributeMetadata \<Rightarrow> jsval" where
  "attributeValue entity attr =
     nullish_or (attr_value attr) (get_prop (entity_fields entity) (attr_name attr))"

text \<open>
  The object the callback of \<^verbatim>\<open>uniqueAttributes.map(attr => ...)\<close> returns; \<open>cond\<close> is
  \<^verbatim>\<open>uniqueRecordConditionExpression\<close>.
\<close>

definition uniqueAttributePutItem ::
  "'w collaborators \<Rightarrow> Table \<Rightarrow> string \<Rightarrow> jsobject \<Rightarrow> string \<Rightarrow> jsval \<Rightarrow> jsobject" where
  "uniqueAttributePutItem d tbl nm cond attrName v =
     spread [(''Item'', JObj (getUniqueAttributePrimaryKey d tbl nm attrName v)),
             (''TableName'', JStr (table_name tbl))] cond"

text \<open>
  The \<^verbatim>\<open>map\<close>, attribute after attribute: the first attribute whose value is not truthy
  throws.
\<close>

fun uniqueAttributePutItems ::
  "'w collaborators \<Rightarrow> Table \<Rightarrow> string \<Rightarrow> Entity \<Rightarrow> jsobject \<Rightarrow> AttributeMetadata list
   \<Rightarrow> error + jsobject list" where
  "uniqueAttributePutItems d tbl nm entity cond [] = Inr []"
| "uniqueAttributePutItems d tbl nm entity cond (attr # attrs) =
     (if \<not> truthy (attributeValue entity attr)
      then Inl (MissingUniqueAttributeValueError (attr_name attr))
      else
        (case uniqueAttributePutItems d tbl nm entity cond attrs of
           Inl e \<Rightarrow> Inl e
         | Inr items \<Rightarrow>
             Inr (uniqueAttributePutItem d tbl nm cond (attr_name attr)
                    (attributeValue entity attr) # items)))"

text \<open>
  \<^verbatim>\<open>!options?.overwriteIfExists\<close> is \<open>\<not> overwrites options\<close>.
\<close>

definition overwrites :: "ManagerToDynamoPutItemOptions option \<Rightarrow> bool" where
  "overwrites options = (case options of None \<Rightarrow> False | Some opts \<Rightarrow> overwriteIfExists opts)"

definition toDynamoPutItem ::
  "'w collaborators \<Rightarrow> Connection \<Rightarrow> Entity \<Rightarrow> ManagerToDynamoPutItemOptions option
   \<Rightarrow> error + put_result" where
  "toDynamoPutItem d conn entity options =
     (case getEntityByTarget conn (entity_constructor entity) of
        Inl e \<Rightarrow> Inl e
      | Inr metadata \<Rightarrow>
          (let tbl = entity_table metadata;
               nm = entity_name metadata;
               uniqueAttributes = getUniqueAttributesForEntity conn (entity_constructor entity)
           in case toDynamoEntity d entity of
                Inl e \<Rightarrow> Inl e
              | Inr dynamoEntity \<Rightarrow>
                  (let uniqueRecordConditionExpression =
                         buildConditionExpression d (attributeNotExist (partitionKey tbl))
                   in case uniqueAttributePutItems d tbl nm entity
                             uniqueRecordConditionExpression uniqueAttributes of
                        Inl e \<Rightarrow> Inl e
                      | Inr uniqueItems \<Rightarrow>
                          (let dynamoPutItem0 =
                                 [(''Item'', JObj (spread [] dynamoEntity)),
                                  (''TableName'', JStr (table_name tbl))];
                               dynamoPutItem =
                                 (if \<not> overwrites options
                                  then spread dynamoPutItem0 uniqueRecordConditionExpression
                                  else dynamoPutItem0)
                           in if uniqueItems \<noteq> [] then Inr (PutItems (dynamoPutItem # uniqueItems))
                              else Inr (PutItem dynamoPutItem)))))"

text \<open>
  The entity's own put request and the shadow put requests of a result. The transformer
  never returns an empty list.
\<close>

fun main_put :: "put_result \<Rightarrow> jsobject" where
  "main_put (PutItem r) = r"
| "main_put (PutItems (r # rs)) = r"
| "main_put (PutItems []) = []"

fun shadow_puts :: "put_result \<Rightarrow> jsobject list" where
  "shadow_puts (PutItem r) = []"
| "shadow_puts (PutItems rs) = tl rs"

section \<open>Update\<close>

text \<open>
  \<^verbatim>\<open>EntityManagerUpdateOptions\<close> (not among the sources): the two fields the transformer
  reads, with the defaults \<^verbatim>\<open>'.'\<close> and \<^verbatim>\<open>RETURN_VALUES.ALL_NEW\<close>.
\<close>

record EntityManagerUpdateOptions =
  nestedKeySeparator :: "string option"
  returnValues :: "string option"

text \<open>
  \<^verbatim>\<open>const {nestedKeySeparator = '.', returnValues = RETURN_VALUES.ALL_NEW} = options ?? {}\<close>.
\<close>

definition nestedKeySeparator_of :: "EntityManagerUpdateOptions option \<Rightarrow> string" where
  "nestedKeySeparator_of options =
     (case options of
        None \<Rightarrow> ''.''
      | Some opts \<Rightarrow> (case nestedKeySeparator opts of None \<Rightarrow> ''.'' | Some s \<Rightarrow> s))"

definition returnValues_of :: "EntityManagerUpdateOptions option \<Rightarrow> string" where
  "returnValues_of options =
     (case options of
        None \<Rightarrow> ''ALL_NEW''
      | Some opts \<Rightarrow> (case returnValues opts of None \<Rightarrow> ''ALL_NEW'' | Some r \<Rightarrow> r))"

text \<open>
  The \<^verbatim>\<open>forEach\<close> over the unique attributes: throws at the first one that the body
  holds a truthy value for.
\<close>

fun checkUniqueNotUpdated :: "jsobject \<Rightarrow> AttributeMetadata list \<Rightarrow> error option" where
  "checkUniqueNotUpdated body [] = None"
| "checkUniqueNotUpdated body (attr # attrs) =
     (if truthy (get_prop body (attr_name attr)) then Some ImmutableUniqueAttributeError
      else checkUniqueNotUpdated body attrs)"

text \<open>
  The \<^verbatim>\<open>reduce\<close> over the auto-update attributes, with its accumulator \<open>acc\<close>: throws at
  the first attribute that the primary key input holds a truthy value for; otherwise
  \<^verbatim>\<open>acc[attr.name] = attr.autoGenerateValue(attr.strategy)\<close>.
\<close>

fun formattedAutoUpdateAttributes ::
  "'w collaborators \<Rightarrow> jsobject \<Rightarrow> AttributeMetadata list \<Rightarrow> jsobject \<Rightarrow> 'w
   \<Rightarrow> (error + jsobject) \<times> 'w" where
  "formattedAutoUpdateAttributes d pk [] acc w = (Inr acc, w)"
| "formattedAutoUpdateAttributes d pk (attr # attrs) acc w =
     (if truthy (get_prop pk (attr_name attr))
      then (Inl (AutoGeneratedAttributeKeyCollisionError (attr_name attr)), w)
      else
        (case autoGenerateValue d
                (case attr_autoGenerated attr of None \<Rightarrow> [] | Some g \<Rightarrow> strategy g) w of
           (v, w') \<Rightarrow>
             formattedAutoUpdateAttributes d pk attrs (AList.update (attr_name attr) v acc) w'))"

definition toDynamoUpdateItem ::
  "'w collaborators \<Rightarrow> Connection \<Rightarrow> EntityTarget \<Rightarrow> jsobject \<Rightarrow> jsobject
   \<Rightarrow> EntityManagerUpdateOptions option \<Rightarrow> 'w \<Rightarrow> (error + jsobject) \<times> 'w" where
  "toDynamoUpdateItem d conn entityClass pk body options w =
     (let sep = nestedKeySeparator_of options;
          rv = returnValues_of options
      in if \<not> hasMetadata conn entityClass then (Inl NoMetadataError, w)
         else
           (case getEntityByTarget conn entityClass of
              Inl e \<Rightarrow> (Inl e, w)
            | Inr metadata \<Rightarrow>
                (let tableName = table_name (entity_table metadata) in
                 case getParsedPrimaryKey d (entity_table metadata)
                        (primaryKey (entity_schema metadata)) pk of
                   Inl e \<Rightarrow> (Inl e, w)
                 | Inr parsedPrimaryKey \<Rightarrow>
                     if isEmptyObject parsedPrimaryKey then (Inl PrimaryKeyUnresolvedError, w)
                     else
                       (case checkUniqueNotUpdated body
                               (getUniqueAttributesForEntity conn entityClass) of
                          Some e \<Rightarrow> (Inl e, w)
                        | None \<Rightarrow>
                            (case formattedAutoUpdateAttributes d pk
                                    (getAutoUpdateAttributes conn entityClass) [] w of
                               (Inl e, w') \<Rightarrow> (Inl e, w')
                             | (Inr formatted, w') \<Rightarrow>
                                 (let attributesToUpdate = spread body formatted in
                                  case getAffectedIndexesForAttributes d entityClass
                                         attributesToUpdate sep of
                                    Inl e \<Rightarrow> (Inl e, w')
                                  | Inr affectedIndexes \<Rightarrow>
                                      (let expr = buildUpdateExpression d
                                                    (spread attributesToUpdate affectedIndexes)
                                       in (Inr [(''TableName'', JStr tableName),
                                                (''Key'', JObj (spread [] parsedPrimaryKey)),
                                                (''UpdateExpression'',
                                                   get_prop expr ''UpdateExpression''),
                                                (''ExpressionAttributeNames'',
                                                   get_prop expr ''ExpressionAttributeNames''),
                                                (''ExpressionAttributeValues'',
                                                   get_prop expr ''ExpressionAttributeValues''),
                                                (''ReturnValues'', JStr rv)], w'))))))))"

section \<open>Query\<close>

datatype QUERY_ORDER = ASC | DESC

text \<open>
  \<^verbatim>\<open>ManagerToDynamoQueryItemsOptions\<close>: three optional fields. \<open>keyCondition\<close> is an
  object from operator names to values. An options object is empty when none of its fields
  is there. A field is there with a value or not there: an options object that holds a
  property whose value is \<open>undefined\<close> (\<^verbatim>\<open>{limit: undefined}\<close>), which the code does not
  take for empty, has no counterpart in this record.
\<close>

record ManagerToDynamoQueryItemsOptions =
  keyCondition :: "jsobject option"
  limit :: "int option"
  orderBy :: "QUERY_ORDER option"

definition isEmptyOptions :: "ManagerToDynamoQueryItemsOptions \<Rightarrow> bool" where
  "isEmptyOptions qo =
     (case keyCondition qo of
        Some kc \<Rightarrow> False
      | None \<Rightarrow> (case limit qo of
                  Some n \<Rightarrow> False
                | None \<Rightarrow> (case orderBy qo of Some ord \<Rightarrow> False | None \<Rightarrow> True)))"

text \<open>
  \<^verbatim>\<open>partitionKeyAttributes.queryIndex\<close>, declared \<^verbatim>\<open>queryIndex?: string\<close>, where the
  code tests it with \<^verbatim>\<open>if (partitionKeyAttributes.queryIndex)\<close>: the name of the requested
  index, if one is requested.
\<close>

definition queryIndex :: "jsobject \<Rightarrow> string option" where
  "queryIndex pka =
     (case get_prop pka ''queryIndex'' of
        JStr q \<Rightarrow> (if truthy (JStr q) then Some q else None)
      | _ \<Rightarrow> None)"

text \<open>
  Lines 278 to 296: the index to query, with the entity's templates for it
  (\<^verbatim>\<open>matchingIndexOnEntity\<close>, which the code reads again as
  \<^verbatim>\<open>schema.indexes[partitionKeyAttributes.queryIndex]\<close>). \<open>None\<close> is the
  \<^verbatim>\<open>indexToQuery\<close> that was never assigned.
\<close>

definition indexToQuery ::
  "Table \<Rightarrow> EntitySchema \<Rightarrow> jsobject \<Rightarrow> error + (IndexOptions \<times> jsobject) option" where
  "indexToQuery tbl sch pka =
     (case queryIndex pka of
        None \<Rightarrow> Inr None
      | Some q \<Rightarrow>
          (case getIndexByKey tbl q of
             None \<Rightarrow> Inl (IndexNotFoundError OnTable)
           | Some matchingIndex \<Rightarrow>
               (case map_of (indexes sch) q of
                  None \<Rightarrow> Inl (IndexNotFoundError OnEntity)
                | Some matchingIndexOnEntity \<Rightarrow>
                    Inr (Some (matchingIndex, matchingIndexOnEntity)))))"

text \<open>Lines 298 to 319: name and value of \<^verbatim>\<open>parsedPartitionKey\<close>.\<close>

definition parsedPartitionKey ::
  "'w collaborators \<Rightarrow> Table \<Rightarrow> EntitySchema \<Rightarrow> jsobject \<Rightarrow> (IndexOptions \<times> jsobject) option
   \<Rightarrow> error + string \<times> jsval" where
  "parsedPartitionKey d tbl sch pka ix =
     (let onTable =
            (case parseKey d (get_prop (primaryKey sch) (partitionKey tbl)) pka of
               Inl e \<Rightarrow> Inl e
             | Inr v \<Rightarrow> Inr (partitionKey tbl, v))
      in case ix of
           None \<Rightarrow> onTable
         | Some (idx, templates) \<Rightarrow>
             if index_type idx = LSI then onTable
             else
               (case parseKey d (get_prop templates (index_partitionKey idx)) pka of
                  Inl e \<Rightarrow> Inl e
                | Inr v \<Rightarrow> Inr (index_partitionKey idx, v)))"

text \<open>
  Lines 335 to 347: the name of \<^verbatim>\<open>parsedSortKey\<close>. A table that uses a composite key
  has a sort key, so the inner \<open>None\<close> case is never taken.
\<close>

definition parsedSortKey ::
  "Table \<Rightarrow> (IndexOptions \<times> jsobject) option \<Rightarrow> error + string" where
  "parsedSortKey tbl ix =
     (case ix of
        None \<Rightarrow>
          if \<not> usesCompositeKey tbl then Inl UnsupportedSortKeyConditionError
          else (case sortKey tbl of
                  Some sk \<Rightarrow> Inr sk
                | None \<Rightarrow> Inl UnsupportedSortKeyConditionError)
      | Some (idx, templates) \<Rightarrow> Inr (index_sortKey idx))"

text \<open>
  Lines 361 to 376: the sort key condition built from a key condition object whose first
  property is \<open>(op0, v0)\<close>. \<^verbatim>\<open>Object.keys(keyCondition)[0]\<close> is \<open>op0\<close>.
\<close>

definition sortKeyCondition :: "string \<Rightarrow> jsobject \<Rightarrow> string \<Rightarrow> KeyCondition" where
  "sortKeyCondition skName kc op0 =
     (if truthy (get_prop kc ''BETWEEN'') \<and> truthy (js_length (get_prop kc ''BETWEEN''))
      then KC_between skName (get_prop kc ''BETWEEN'')
      else if truthy (get_prop kc ''BEGINS_WITH'')
      then KC_beginsWith skName (get_prop kc ''BEGINS_WITH'')
      else KC_addBaseOperatorCondition op0 skName (get_prop kc op0))"

definition optional_num :: "int option \<Rightarrow> jsval" where
  "optional_num n = (case n of None \<Rightarrow> JUndefined | Some i \<Rightarrow> JNum i)"

definition toDynamoQueryItem ::
  "'w collaborators \<Rightarrow> Connection \<Rightarrow> EntityTarget \<Rightarrow> jsobject
   \<Rightarrow> ManagerToDynamoQueryItemsOptions option \<Rightarrow> error + jsobject" where
  "toDynamoQueryItem d conn entityClass pka queryOptions =
     (case getEntityByTarget conn entityClass of
        Inl e \<Rightarrow> Inl e
      | Inr metadata \<Rightarrow>
          (let tbl = entity_table metadata; sch = entity_schema metadata in
           case indexToQuery tbl sch pka of
             Inl e \<Rightarrow> Inl e
           | Inr ix \<Rightarrow>
               (case parsedPartitionKey d tbl sch pka ix of
                  Inl e \<Rightarrow> Inl e
                | Inr (pkName, pkValue) \<Rightarrow>
                    (let partitionKeyCondition = KC_equals pkName pkValue;
                         partitionOnly =
                           Inr (spread [(''TableName'', JStr (table_name tbl)),
                                        (''IndexName'', get_prop pka ''queryIndex'')]
                                  (buildKeyConditionExpression d partitionKeyCondition))
                     in case queryOptions of
                          None \<Rightarrow> partitionOnly
                        | Some qo \<Rightarrow>
                            if isEmptyOptions qo then partitionOnly
                            else
                              (case parsedSortKey tbl ix of
                                 Inl e \<Rightarrow> Inl e
                               | Inr skName \<Rightarrow>
                                   (let queryInputParams =
                                          [(''TableName'', JStr (table_name tbl)),
                                           (''IndexName'', get_prop pka ''queryIndex''),
                                           (''Limit'', optional_num (limit qo)),
                                           (''ScanIndexForward'',
                                              JBool (case orderBy qo of
                                                       None \<Rightarrow> True
                                                     | Some ord \<Rightarrow> ord = ASC))]
                                    in case keyCondition qo of
                                         None \<Rightarrow> Inr (spread [] queryInputParams)
                                       | Some [] \<Rightarrow> Inr (spread [] queryInputParams)
                                       | Some ((op0, v0) # rest) \<Rightarrow>
                                           Inr (spread []
                                                  (spread queryInputParams
                                                     (buildKeyConditionExpression d
                                                        (KC_merge partitionKeyCondition
                                                           (sortKeyCondition skName
                                                              ((op0, v0) # rest) op0)))))))))))"

section \<open>Key resolution as specified\<close>

text \<open>Decimal digits of a number, for a number substituted into a key.\<close>

fun show_nat :: "nat \<Rightarrow> string" where
  "show_nat n =
     (if n < 10 then [''0123456789'' ! n]
      else show_nat (n div 10) @ [''0123456789'' ! (n mod 10)])"

definition show_int :: "int \<Rightarrow> string" where
  "show_int i = (if i < 0 then CHR ''-'' # show_nat (nat (- i)) else show_nat (nat i))"

text \<open>
  Modelled from the spec: \<^verbatim>\<open>parseKey\<close> (\<^verbatim>\<open>helpers/parse-key\<close>) is not among the
  sources. Section 4.1: each \<^verbatim>\<open>{{name}}\<close> token of the template is replaced by the value
  of the attribute \<open>name\<close> of the source object, a string or a number coerced to a string;
  the resolution fails with \<open>UnresolvedKeyAttributeError\<close> when a referenced attribute is
  missing, undefined or an empty string. The spec names strings and numbers only: a value
  of another kind does not resolve here.
\<close>

definition token_value :: "jsval \<Rightarrow> string option" where
  "token_value v =
     (case v of
        JStr s \<Rightarrow> (if s = [] then None else Some s)
      | JNum n \<Rightarrow> Some (show_int n)
      | _ \<Rightarrow> None)"

text \<open>
  The scan of the template: \<open>None\<close> outside a token, \<open>Some n\<close> inside one whose name read
  so far is \<open>rev n\<close>. An opening \<^verbatim>\<open>{{\<close> that is never closed is literal text.
\<close>

fun resolve_template :: "jsobject \<Rightarrow> string option \<Rightarrow> string \<Rightarrow> error + string" where
  "resolve_template dict None [] = Inr []"
| "resolve_template dict None [c] = Inr [c]"
| "resolve_template dict None (a # b # cs) =
     (if a = CHR ''{'' \<and> b = CHR ''{'' then resolve_template dict (Some []) cs
      else (case resolve_template dict None (b # cs) of
              Inl e \<Rightarrow> Inl e
            | Inr r \<Rightarrow> Inr (a # r)))"
| "resolve_template dict (Some n) (a # b # cs) =
     (if a = CHR ''}'' \<and> b = CHR ''}''
      then (case token_value (get_prop dict (rev n)) of
              None \<Rightarrow> Inl UnresolvedKeyAttributeError
            | Some v \<Rightarrow> (case resolve_template dict None cs of
                          Inl e \<Rightarrow> Inl e
                        | Inr r \<Rightarrow> Inr (v @ r)))
      else resolve_template dict (Some (a # n)) (b # cs))"
| "resolve_template dict (Some n) cs = Inr (''{{'' @ rev n @ cs)"

definition parseKey_spec :: "jsval \<Rightarrow> jsobject \<Rightarrow> error + jsval" where
  "parseKey_spec template dict =
     (case template of
        JStr t \<Rightarrow> (case resolve_template dict None t of
                    Inl e \<Rightarrow> Inl e
                  | Inr r \<Rightarrow> Inr (JStr r))
      | _ \<Rightarrow> Inl UnresolvedKeyAttributeError)"

text \<open>
  Modelled from the spec: \<^verbatim>\<open>BaseTransformer.getParsedPrimaryKey\<close> is not among the
  sources. Section 4.2: the partition-key template is resolved unconditionally, the sort-key
  template only when the table declares a sort key; the result is empty, not an error, when
  the resolution cannot proceed at all (no matching schema).
\<close>

definition getParsedPrimaryKey_spec :: "Table \<Rightarrow> jsobject \<Rightarrow> jsobject \<Rightarrow> error + jsobject" where
  "getParsedPrimaryKey_spec tbl keySchema keyInput =
     (case map_of keySchema (partitionKey tbl) of
        None \<Rightarrow> Inr []
      | Some pt \<Rightarrow>
          (case parseKey_spec pt keyInput of
             Inl e \<Rightarrow> Inl e
           | Inr pv \<Rightarrow>
               (case sortKey tbl of
                  None \<Rightarrow> Inr [(partitionKey tbl, pv)]
                | Some sk \<Rightarrow>
                    (case map_of keySchema sk of
                       None \<Rightarrow> Inr []
                     | Some st \<Rightarrow>
                         (case parseKey_spec st keyInput of
                            Inl e \<Rightarrow> Inl e
                          | Inr sv \<Rightarrow>
                              Inr (AList.update sk sv [(partitionKey tbl, pv)]))))))"

text \<open>
  Collaborators with the key resolution of the specification; the other collaborators are
  those of \<open>d\<close>.
\<close>

definition with_key_resolution :: "'w collaborators \<Rightarrow> 'w collaborators" where
  "with_key_resolution d =
     d\<lparr>parseKey := parseKey_spec, getParsedPrimaryKey := getParsedPrimaryKey_spec\<rparr>"

section \<open>The User entity and sample collaborators\<close>

text \<open>
  Modelled from the spec: the module \<^verbatim>\<open>./table\<close> that declares the table of \<^verbatim>\<open>User\<close>
  is not among the sources. Section 8 names its key attributes \<open>PK\<close> and \<open>SK\<close> and its
  global index \<open>GSI1\<close>; the table's name and the key attribute names of the index are
  parameters.
\<close>

definition user_table :: "string \<Rightarrow> string \<Rightarrow> string \<Rightarrow> Table" where
  "user_table tn gpk gsk =
     \<lparr>table_name = tn, partitionKey = ''PK'', sortKey = Some ''SK'',
      table_indexes =
        [(''GSI1'', \<lparr>index_type = GSI, index_partitionKey = gpk, index_sortKey = gsk\<rparr>)]\<rparr>"

definition plain_attribute :: "string \<Rightarrow> AttributeMetadata" where
  "plain_attribute n = \<lparr>attr_name = n, attr_unique = False, attr_autoGenerated = None\<rparr>"

text \<open>
  The \<^verbatim>\<open>User\<close> class at the end of the source file: entity \<^verbatim>\<open>user\<close> with primary key
  \<^verbatim>\<open>USER#{{id}}\<close> for both key attributes, index \<^verbatim>\<open>GSI1\<close> with
  \<^verbatim>\<open>USER#STATUS#{{status}}\<close> and \<^verbatim>\<open>USER#{{name}}\<close>, and the attributes the class
  declares. The table and the attributes are parameters so that variants can be written;
  the templates of \<^verbatim>\<open>GSI1\<close> are those of every index of the table.
\<close>

definition user_metadata :: "Table \<Rightarrow> AttributeMetadata list \<Rightarrow> EntityMetadata" where
  "user_metadata tbl attrs =
     \<lparr>entity_table = tbl, entity_name = ''user'',
      entity_schema =
        \<lparr>primaryKey = [(partitionKey tbl, JStr ''USER#{{id}}'')] @
                      (case sortKey tbl of None \<Rightarrow> [] | Some sk \<Rightarrow> [(sk, JStr ''USER#{{id}}'')]),
         indexes =
           map (\<lambda>(k, idx). (k, [(index_partitionKey idx, JStr ''USER#STATUS#{{status}}''),
                                (index_sortKey idx, JStr ''USER#{{name}}'')]))
             (table_indexes tbl)\<rparr>,
      entity_attributes = attrs\<rparr>"

definition User :: "string \<Rightarrow> string \<Rightarrow> string \<Rightarrow> EntityMetadata" where
  "User tn gpk gsk =
     user_metadata (user_table tn gpk gsk)
       [plain_attribute ''id'', plain_attribute ''name'', plain_attribute ''status'',
        plain_attribute ''age'']"

text \<open>A connection that knows one entity class, \<^verbatim>\<open>User\<close>.\<close>

definition connection_of :: "EntityMetadata \<Rightarrow> Connection" where
  "connection_of m = (\<lambda>c. if c = ''User'' then Some m else None)"

text \<open>
  Collaborators for evaluating the transformer on concrete inputs. The key resolution is
  the specified one. The spec leaves the output formats of the other collaborators open:
  here they return their arguments as data, the item of an entity is its own properties, no
  index is affected by an update, and the generator of fresh values is a clock.
\<close>

fun sample_key_condition :: "KeyCondition \<Rightarrow> jsval" where
  "sample_key_condition (KC_equals n v) = JArr [JStr ''='', JStr n, v]"
| "sample_key_condition (KC_between n v) = JArr [JStr ''BETWEEN'', JStr n, v]"
| "sample_key_condition (KC_beginsWith n v) = JArr [JStr ''begins_with'', JStr n, v]"
| "sample_key_condition (KC_addBaseOperatorCondition ope n v) = JArr [JStr ope, JStr n, v]"
| "sample_key_condition (KC_merge p q) =
     JArr [JStr ''AND'', sample_key_condition p, sample_key_condition q]"

definition sample_collaborators :: "nat collaborators" where
  "sample_collaborators =
     \<lparr>parseKey = parseKey_spec,
      getParsedPrimaryKey = getParsedPrimaryKey_spec,
      toDynamoEntity = (\<lambda>entity. Inr (entity_fields entity)),
      getAffectedIndexesForAttributes = (\<lambda>c attrs sep. Inr []),
      getUniqueAttributePrimaryKey =
        (\<lambda>tbl nm attrName v. [(partitionKey tbl, JArr [JStr nm, JStr attrName, v])]),
      buildConditionExpression =
        (\<lambda>c. case c of attributeNotExist a \<Rightarrow>
                [(''ConditionExpression'', JArr [JStr ''attribute_not_exists'', JStr a])]),
      buildKeyConditionExpression =
        (\<lambda>kc. [(''KeyConditionExpression'', sample_key_condition kc)]),
      buildUpdateExpression =
        (\<lambda>attrs. [(''UpdateExpression'', JObj attrs),
                   (''ExpressionAttributeNames'', JObj []),
                   (''ExpressionAttributeValues'', JObj [])]),
      autoGenerateValue = (\<lambda>s w. (JNum (int w), Suc w))\<rparr>"

section \<open>Sample inputs\<close>

text \<open>
  Variants of the \<^verbatim>\<open>User\<close> entity for evaluating the theorems: one with two unique
  attributes, one with an auto-update attribute, one whose table has no sort key, one whose
  table has a local index \<open>LSI1\<close> in place of \<open>GSI1\<close>.
\<close>

definition unique_attribute :: "string \<Rightarrow> AttributeMetadata" where
  "unique_attribute n = \<lparr>attr_name = n, attr_unique = True, attr_autoGenerated = None\<rparr>"

definition auto_update_attribute :: "string \<Rightarrow> AttributeMetadata" where
  "auto_update_attribute n =
     \<lparr>attr_name = n, attr_unique = False,
      attr_autoGenerated =
        Some \<lparr>strategy = ''EPOCH_DATE'', autoUpdate = True, generated_value = JNum 0\<rparr>\<rparr>"

definition sample_table :: Table where
  "sample_table = user_table ''users'' ''GSI1PK'' ''GSI1SK''"

definition sample_connection :: Connection where
  "sample_connection = connection_of (User ''users'' ''GSI1PK'' ''GSI1SK'')"

definition unique_connection :: Connection where
  "unique_connection =
     connection_of (user_metadata sample_table
       [plain_attribute ''id'', unique_attribute ''email'', unique_attribute ''handle''])"

definition auto_update_connection :: "string \<Rightarrow> Connection" where
  "auto_update_connection n =
     connection_of (user_metadata sample_table [plain_attribute ''name'', auto_update_attribute n])"

definition partition_only_connection :: Connection where
  "partition_only_connection =
     connection_of (user_metadata (sample_table\<lparr>sortKey := None\<rparr>) [plain_attribute ''id''])"

definition lsi_table :: Table where
  "lsi_table =
     sample_table\<lparr>table_indexes :=
       [(''LSI1'', \<lparr>index_type = LSI, index_partitionKey = ''LSI1PK'',
                   index_sortKey = ''LSI1SK''\<rparr>)]\<rparr>"

definition lsi_connection :: Connection where
  "lsi_connection = connection_of (user_metadata lsi_table [plain_attribute ''id''])"

section \<open>Auxiliary facts\<close>

lemma uniqueAttributePutItems_all:
  "\<forall>attr \<in> set attrs. truthy (attributeValue entity attr) \<Longrightarrow>
   uniqueAttributePutItems d tbl nm entity cond attrs =
     Inr (map (\<lambda>attr. uniqueAttributePutItem d tbl nm cond (attr_name attr)
                 (attributeValue entity attr)) attrs)"
  by (induction attrs) simp_all

lemma uniqueAttributePutItems_Inr:
  "uniqueAttributePutItems d tbl nm entity cond attrs = Inr items \<Longrightarrow>
   items = map (\<lambda>attr. uniqueAttributePutItem d tbl nm cond (attr_name attr)
                  (attributeValue entity attr)) attrs"
  by (induction attrs arbitrary: items) (auto split: if_splits sum.splits)

lemma uniqueAttributePutItems_generator:
  "uniqueAttributePutItems (d\<lparr>autoGenerateValue := g\<rparr>) tbl nm entity cond attrs =
   uniqueAttributePutItems d tbl nm entity cond attrs"
  by (induction attrs) (simp_all add: uniqueAttributePutItem_def split: sum.splits)


lemma checkUniqueNotUpdated_truthy:
  "attr \<in> set attrs \<Longrightarrow> truthy (get_prop body (attr_name attr)) \<Longrightarrow>
   checkUniqueNotUpdated body attrs = Some ImmutableUniqueAttributeError"
  by (induction attrs) auto

lemma checkUniqueNotUpdated_falsy:
  "\<forall>attr \<in> set attrs. \<not> truthy (get_prop body (attr_name attr)) \<Longrightarrow>
   checkUniqueNotUpdated body attrs = None"
  by (induction attrs) auto

lemma formattedAutoUpdateAttributes_collision:
  "\<exists>attr \<in> set attrs. truthy (get_prop pk (attr_name attr)) \<Longrightarrow>
   \<exists>n w'. formattedAutoUpdateAttributes d pk attrs acc w
            = (Inl (AutoGeneratedAttributeKeyCollisionError n), w')
          \<and> n \<in> attr_name ` set attrs \<and> truthy (get_prop pk n)"
proof (induction attrs arbitrary: acc w)
  case Nil
  then show ?case by simp
next
  case (Cons a attrs)
  show ?case
  proof (cases "truthy (get_prop pk (attr_name a))")
    case True
    then show ?thesis by simp
  next
    case False
    with Cons.prems have "\<exists>attr \<in> set attrs. truthy (get_prop pk (attr_name attr))" by auto
    from Cons.IH[OF this] False show ?thesis
      by (auto split: prod.splits) blast
  qed
qed

lemma formattedAutoUpdateAttributes_merge:
  "\<forall>attr \<in> set attrs. \<not> truthy (get_prop pk (attr_name attr)) \<Longrightarrow>
   \<exists>formatted w'. formattedAutoUpdateAttributes d pk attrs acc w = (Inr formatted, w')
          \<and> fst ` set formatted = fst ` set acc \<union> attr_name ` set attrs"
proof (induction attrs arbitrary: acc w)
  case Nil
  then show ?case by simp
next
  case (Cons a attrs)
  obtain v w1 where g: "autoGenerateValue d
                (case attr_autoGenerated a of None \<Rightarrow> [] | Some g \<Rightarrow> strategy g) w = (v, w1)"
    by (cases "autoGenerateValue d
                (case attr_autoGenerated a of None \<Rightarrow> [] | Some g \<Rightarrow> strategy g) w")
  from Cons.prems have rest: "\<forall>attr \<in> set attrs. \<not> truthy (get_prop pk (attr_name attr))"
    and here: "\<not> truthy (get_prop pk (attr_name a))" by auto
  from Cons.IH[OF rest, of "AList.update (attr_name a) v acc" w1] here g
  show ?case by (auto simp: dom_update)
qed

text \<open>
  Where the two checks of the update fire: a truthy body value of a unique attribute is
  rejected; with no such value, a truthy value of the primary key input under the name of
  an auto-update attribute is rejected; with neither, the generated values, one per
  auto-update attribute, are spread over the body before the update expression is built.
\<close>

lemma update_rejects_truthy_unique:
  assumes "hasMetadata conn c"
    and "getEntityByTarget conn c = Inr m"
    and "getParsedPrimaryKey d (entity_table m) (primaryKey (entity_schema m)) pk = Inr key"
    and "\<not> isEmptyObject key"
    and "attr \<in> set (getUniqueAttributesForEntity conn c)"
    and "truthy (get_prop body (attr_name attr))"
  shows "toDynamoUpdateItem d conn c pk body options w = (Inl ImmutableUniqueAttributeError, w)"
  using assms checkUniqueNotUpdated_truthy[of attr "getUniqueAttributesForEntity conn c" body]
  by (simp add: toDynamoUpdateItem_def Let_def)

lemma update_rejects_truthy_key_collision:
  assumes "hasMetadata conn c"
    and "getEntityByTarget conn c = Inr m"
    and "getParsedPrimaryKey d (entity_table m) (primaryKey (entity_schema m)) pk = Inr key"
    and "\<not> isEmptyObject key"
    and "\<forall>attr \<in> set (getUniqueAttributesForEntity conn c). \<not> truthy (get_prop body (attr_name attr))"
    and "\<exists>attr \<in> set (getAutoUpdateAttributes conn c). truthy (get_prop pk (attr_name attr))"
  shows "\<exists>n. fst (toDynamoUpdateItem d conn c pk body options w)
              = Inl (AutoGeneratedAttributeKeyCollisionError n)"
proof -
  from formattedAutoUpdateAttributes_collision[OF assms(6), of d "[]" w]
  obtain n w' where "formattedAutoUpdateAttributes d pk (getAutoUpdateAttributes conn c) [] w
            = (Inl (AutoGeneratedAttributeKeyCollisionError n), w')" by blast
  with assms(1-4) checkUniqueNotUpdated_falsy[OF assms(5)] show ?thesis
    by (auto simp: toDynamoUpdateItem_def Let_def)
qed

lemma update_merges_generated_values:
  assumes "hasMetadata conn c"
    and "getEntityByTarget conn c = Inr m"
    and "getParsedPrimaryKey d (entity_table m) (primaryKey (entity_schema m)) pk = Inr key"
    and "\<not> isEmptyObject key"
    and "\<forall>attr \<in> set (getUniqueAttributesForEntity conn c). \<not> truthy (get_prop body (attr_name attr))"
    and "\<forall>attr \<in> set (getAutoUpdateAttributes conn c). \<not> truthy (get_prop pk (attr_name attr))"
  shows "\<exists>formatted w'.
           formattedAutoUpdateAttributes d pk (getAutoUpdateAttributes conn c) [] w = (Inr formatted, w')
         \<and> fst ` set formatted = attr_name ` set (getAutoUpdateAttributes conn c)
         \<and> toDynamoUpdateItem d conn c pk body options w
           = (case getAffectedIndexesForAttributes d c (spread body formatted)
                     (nestedKeySeparator_of options) of
                Inl e \<Rightarrow> (Inl e, w')
              | Inr affectedIndexes \<Rightarrow>
                  (let expr = buildUpdateExpression d
                                (spread (spread body formatted) affectedIndexes)
                   in (Inr [(''TableName'', JStr (table_name (entity_table m))),
                            (''Key'', JObj (spread [] key)),
                            (''UpdateExpression'', get_prop expr ''UpdateExpression''),
                            (''ExpressionAttributeNames'', get_prop expr ''ExpressionAttributeNames''),
                            (''ExpressionAttributeValues'', get_prop expr ''ExpressionAttributeValues''),
                            (''ReturnValues'', JStr (returnValues_of options))], w')))"
proof -
  from formattedAutoUpdateAttributes_merge[OF assms(6), of d "[]" w]
  obtain formatted w' where f:
    "formattedAutoUpdateAttributes d pk (getAutoUpdateAttributes conn c) [] w = (Inr formatted, w')"
    "fst ` set formatted = attr_name ` set (getAutoUpdateAttributes conn c)" by auto
  with assms(1-4) checkUniqueNotUpdated_falsy[OF assms(5)] show ?thesis
    by (simp add: toDynamoUpdateItem_def Let_def)
qed

text \<open>
  A query of the base table of a table without sort key: without options the partition-only
  request is returned; with a key condition the sort key error is raised.
\<close>

lemma query_without_options:
  assumes "getEntityByTarget conn c = Inr m"
    and "queryIndex pka = None"
    and "parseKey d (get_prop (primaryKey (entity_schema m)) (partitionKey (entity_table m))) pka
         = Inr v"
  shows "toDynamoQueryItem d conn c pka None
         = Inr (spread [(''TableName'', JStr (table_name (entity_table m))),
                        (''IndexName'', get_prop pka ''queryIndex'')]
                  (buildKeyConditionExpression d (KC_equals (partitionKey (entity_table m)) v)))"
  using assms
  by (simp add: toDynamoQueryItem_def indexToQuery_def parsedPartitionKey_def Let_def)

lemma query_sort_condition_without_sort_key:
  assumes "getEntityByTarget conn c = Inr m"
    and "queryIndex pka = None"
    and "parseKey d (get_prop (primaryKey (entity_schema m)) (partitionKey (entity_table m))) pka
         = Inr v"
    and "\<not> usesCompositeKey (entity_table m)"
    and "keyCondition qo = Some kc"
  shows "toDynamoQueryItem d conn c pka (Some qo) = Inl UnsupportedSortKeyConditionError"
  using assms
  by (simp add: toDynamoQueryItem_def indexToQuery_def parsedPartitionKey_def parsedSortKey_def
        isEmptyOptions_def Let_def)

section \<open>Get and delete agree on the key\<close>

text \<open>
  C7. For an entity (in particular one whose table uses a composite key) and a primary key
  input that resolves to a non-empty key, \<open>toDynamoGetItem\<close> and \<open>toDynamoDeleteItem\<close> both
  return a request, and the \<open>Key\<close> of the two requests is the same map: the resolved key.
\<close>

theorem get_delete_same_Key:
  assumes "getEntityByTarget conn c = Inr m"
    and "getParsedPrimaryKey d (entity_table m) (primaryKey (entity_schema m)) k = Inr key"
    and "\<not> isEmptyObject key"
  shows "\<exists>g r. toDynamoGetItem d conn c k = Inr g \<and> toDynamoDeleteItem d conn c k = Inr r
           \<and> get_prop g ''Key'' = JObj (spread [] key)
           \<and> get_prop r ''Key'' = get_prop g ''Key''"
  using assms
  by (simp add: toDynamoGetItem_def toDynamoDeleteItem_def getTableNameForEntity_def
        get_prop_def)

theorem get_delete_same_Key_witness:
  "getEntityByTarget sample_connection ''User'' = Inr (User ''users'' ''GSI1PK'' ''GSI1SK'')
   \<and> usesCompositeKey (entity_table (User ''users'' ''GSI1PK'' ''GSI1SK''))
   \<and> getParsedPrimaryKey sample_collaborators
        (entity_table (User ''users'' ''GSI1PK'' ''GSI1SK''))
        (primaryKey (entity_schema (User ''users'' ''GSI1PK'' ''GSI1SK'')))
        [(''id'', JStr ''7'')]
      = Inr [(''PK'', JStr ''USER#7''), (''SK'', JStr ''USER#7'')]
   \<and> \<not> isEmptyObject [(''PK'', JStr ''USER#7''), (''SK'', JStr ''USER#7'')]
   \<and> (\<exists>g r. toDynamoGetItem sample_collaborators sample_connection ''User''
                [(''id'', JStr ''7'')] = Inr g
            \<and> toDynamoDeleteItem sample_collaborators sample_connection ''User''
                [(''id'', JStr ''7'')] = Inr r
            \<and> get_prop g ''Key'' = JObj [(''PK'', JStr ''USER#7''), (''SK'', JStr ''USER#7'')]
            \<and> get_prop r ''Key'' = get_prop g ''Key'')"
  using get_delete_same_Key [of sample_connection "''User''" "User ''users'' ''GSI1PK'' ''GSI1SK''"
      sample_collaborators "[(''id'', JStr ''7'')]"
      "[(''PK'', JStr ''USER#7''), (''SK'', JStr ''USER#7'')]"]
  by (simp add: sample_connection_def connection_of_def User_def user_metadata_def
        user_table_def sample_collaborators_def getEntityByTarget_def usesCompositeKey_def
        getParsedPrimaryKey_spec_def parseKey_spec_def token_value_def get_prop_def
        spread_def isEmptyObject_def)

section \<open>The User scenario\<close>

text \<open>
  C9. For the \<^verbatim>\<open>User\<close> entity with primary key \<^verbatim>\<open>USER#{{id}}\<close> for the partition and
  the sort key and index \<open>GSI1\<close> with partition key \<^verbatim>\<open>USER#STATUS#{{status}}\<close>, under the
  key resolution of the specification: \<open>toDynamoGetItem\<close> with \<^verbatim>\<open>{id: "1"}\<close> returns a
  request whose \<open>Key\<close> maps \<open>PK\<close> and \<open>SK\<close> to \<^verbatim>\<open>USER#1\<close>; \<open>toDynamoQueryItem\<close> with
  \<^verbatim>\<open>{status: "active", queryIndex: "GSI1"}\<close> and no options returns a request with
  \<open>IndexName\<close> \<open>GSI1\<close> and the key condition expression built from the one condition that
  the partition key attribute of \<open>GSI1\<close> equals \<^verbatim>\<open>USER#STATUS#active\<close>: no sort key
  condition is merged into it. This holds whatever the table's name, the key attribute
  names of the index and the other collaborators are.
\<close>

theorem user_scenario:
  "toDynamoGetItem (with_key_resolution d) (connection_of (User tn gpk gsk)) ''User''
      [(''id'', JStr ''1'')]
   = Inr [(''TableName'', JStr tn),
          (''Key'', JObj [(''PK'', JStr ''USER#1''), (''SK'', JStr ''USER#1'')])]
   \<and> toDynamoQueryItem (with_key_resolution d) (connection_of (User tn gpk gsk)) ''User''
        [(''status'', JStr ''active''), (''queryIndex'', JStr ''GSI1'')] None
     = Inr (spread [(''TableName'', JStr tn), (''IndexName'', JStr ''GSI1'')]
              (buildKeyConditionExpression d (KC_equals gpk (JStr ''USER#STATUS#active''))))"
  by (simp add: toDynamoGetItem_def toDynamoQueryItem_def indexToQuery_def
        parsedPartitionKey_def queryIndex_def getIndexByKey_def getEntityByTarget_def
        getTableNameForEntity_def with_key_resolution_def connection_of_def User_def
        user_metadata_def user_table_def getParsedPrimaryKey_spec_def parseKey_spec_def
        token_value_def get_prop_def spread_def isEmptyObject_def)

section \<open>Partition key of a query\<close>

text \<open>
  C1. Whenever \<open>toDynamoQueryItem\<close> returns a request: if no index is requested or the
  matched index is \<open>LSI\<close>, the resolved partition key has the name of the table's partition
  key and the value that \<open>parseKey\<close> resolves from the template the entity's primary key
  declares for that attribute; if the matched index is \<open>GSI\<close>, it has the name of the
  index's partition key and the value resolved from the template the entity schema declares
  for that index. The key condition of the request is built on the equality of that name and
  value: alone when no options are given, merged with one sort key condition when a key
  condition is given.
\<close>

theorem query_partition_key_resolution:
  assumes md: "getEntityByTarget conn c = Inr m"
    and ret: "toDynamoQueryItem d conn c pka qo = Inr req"
  shows "\<exists>ix n v.
           indexToQuery (entity_table m) (entity_schema m) pka = Inr ix
         \<and> parsedPartitionKey d (entity_table m) (entity_schema m) pka ix = Inr (n, v)
         \<and> (case ix of
               None \<Rightarrow>
                 queryIndex pka = None
                 \<and> n = partitionKey (entity_table m)
                 \<and> parseKey d (get_prop (primaryKey (entity_schema m))
                                  (partitionKey (entity_table m))) pka = Inr v
             | Some (idx, templates) \<Rightarrow>
                 (\<exists>q. queryIndex pka = Some q
                      \<and> getIndexByKey (entity_table m) q = Some idx
                      \<and> map_of (indexes (entity_schema m)) q = Some templates)
                 \<and> (index_type idx = LSI \<longrightarrow>
                        n = partitionKey (entity_table m)
                      \<and> parseKey d (get_prop (primaryKey (entity_schema m))
                                       (partitionKey (entity_table m))) pka = Inr v)
                 \<and> (index_type idx = GSI \<longrightarrow>
                        n = index_partitionKey idx
                      \<and> parseKey d (get_prop templates (index_partitionKey idx)) pka = Inr v))
         \<and> ((case qo of None \<Rightarrow> True | Some opts \<Rightarrow> isEmptyOptions opts) \<longrightarrow>
               req = spread [(''TableName'', JStr (table_name (entity_table m))),
                             (''IndexName'', get_prop pka ''queryIndex'')]
                       (buildKeyConditionExpression d (KC_equals n v)))
         \<and> (\<forall>opts kc. qo = Some opts \<and> keyCondition opts = Some kc \<and> kc \<noteq> [] \<longrightarrow>
               (\<exists>params skc.
                  req = spread [] (spread params
                          (buildKeyConditionExpression d (KC_merge (KC_equals n v) skc)))))"
proof -
  from md ret obtain ix where ix: "indexToQuery (entity_table m) (entity_schema m) pka = Inr ix"
    by (auto simp: toDynamoQueryItem_def Let_def split: sum.splits)
  from md ret ix obtain n v where
    pk: "parsedPartitionKey d (entity_table m) (entity_schema m) pka ix = Inr (n, v)"
    by (auto simp: toDynamoQueryItem_def Let_def split: sum.splits)
  have shape: "case ix of
               None \<Rightarrow>
                 queryIndex pka = None
                 \<and> n = partitionKey (entity_table m)
                 \<and> parseKey d (get_prop (primaryKey (entity_schema m))
                                  (partitionKey (entity_table m))) pka = Inr v
             | Some (idx, templates) \<Rightarrow>
                 (\<exists>q. queryIndex pka = Some q
                      \<and> getIndexByKey (entity_table m) q = Some idx
                      \<and> map_of (indexes (entity_schema m)) q = Some templates)
                 \<and> (index_type idx = LSI \<longrightarrow>
                        n = partitionKey (entity_table m)
                      \<and> parseKey d (get_prop (primaryKey (entity_schema m))
                                       (partitionKey (entity_table m))) pka = Inr v)
                 \<and> (index_type idx = GSI \<longrightarrow>
                        n = index_partitionKey idx
                      \<and> parseKey d (get_prop templates (index_partitionKey idx)) pka = Inr v)"
    using ix pk
    by (auto simp: indexToQuery_def parsedPartitionKey_def Let_def
        split: option.splits sum.splits if_splits prod.splits)
  have partitionOnly:
    "(case qo of None \<Rightarrow> True | Some opts \<Rightarrow> isEmptyOptions opts) \<longrightarrow>
       req = spread [(''TableName'', JStr (table_name (entity_table m))),
                     (''IndexName'', get_prop pka ''queryIndex'')]
               (buildKeyConditionExpression d (KC_equals n v))"
    using md ret ix pk
    by (auto simp: toDynamoQueryItem_def Let_def split: option.splits)
  have merged:
    "\<forall>opts kc. qo = Some opts \<and> keyCondition opts = Some kc \<and> kc \<noteq> [] \<longrightarrow>
       (\<exists>params skc.
          req = spread [] (spread params
                  (buildKeyConditionExpression d (KC_merge (KC_equals n v) skc))))"
    using md ret ix pk
    by (auto simp: toDynamoQueryItem_def Let_def isEmptyOptions_def
        split: option.splits sum.splits list.splits)
  from ix pk shape partitionOnly merged show ?thesis by blast
qed

theorem query_partition_key_resolution_witness:
  "getEntityByTarget lsi_connection ''User'' = Inr (user_metadata lsi_table [plain_attribute ''id''])
   \<and> toDynamoQueryItem sample_collaborators lsi_connection ''User''
        [(''id'', JStr ''1''), (''queryIndex'', JStr ''LSI1'')] None
     = Inr [(''TableName'', JStr ''users''), (''IndexName'', JStr ''LSI1''),
            (''KeyConditionExpression'', JArr [JStr ''='', JStr ''PK'', JStr ''USER#1''])]
   \<and> (\<exists>ix. indexToQuery lsi_table (entity_schema (user_metadata lsi_table [plain_attribute ''id'']))
              [(''id'', JStr ''1''), (''queryIndex'', JStr ''LSI1'')] = Inr (Some ix)
          \<and> index_type (fst ix) = LSI
          \<and> parsedPartitionKey sample_collaborators lsi_table
               (entity_schema (user_metadata lsi_table [plain_attribute ''id'']))
               [(''id'', JStr ''1''), (''queryIndex'', JStr ''LSI1'')] (Some ix)
             = Inr (''PK'', JStr ''USER#1''))"
  using query_partition_key_resolution [of lsi_connection "''User''"
      "user_metadata lsi_table [plain_attribute ''id'']" sample_collaborators
      "[(''id'', JStr ''1''), (''queryIndex'', JStr ''LSI1'')]" None
      "[(''TableName'', JStr ''users''), (''IndexName'', JStr ''LSI1''),
        (''KeyConditionExpression'', JArr [JStr ''='', JStr ''PK'', JStr ''USER#1''])]"]
  by (simp add: toDynamoQueryItem_def indexToQuery_def parsedPartitionKey_def queryIndex_def
        getIndexByKey_def lsi_connection_def lsi_table_def connection_of_def
        user_metadata_def sample_table_def user_table_def plain_attribute_def
        sample_collaborators_def getEntityByTarget_def parseKey_spec_def token_value_def
        get_prop_def spread_def)

section \<open>Put requests and unique attributes\<close>

text \<open>
  C2. For an entity whose \<open>N\<close> unique attributes all have a truthy value (the metadata
  exists and \<open>toDynamoEntity\<close> returns the item): with \<open>N \<ge> 1\<close>, \<open>toDynamoPutItem\<close> returns
  a list of \<open>N + 1\<close> put requests, the entity's put first, then one shadow put per unique
  attribute in order, whose \<open>Item\<close> is \<open>getUniqueAttributePrimaryKey\<close> applied to the table,
  the entity's name, the attribute's name and the attribute's value and to nothing else;
  with \<open>N = 0\<close> it returns a single put request.
\<close>

theorem put_unique_attributes:
  assumes md: "getEntityByTarget conn (entity_constructor entity) = Inr metadata"
    and ent: "toDynamoEntity d entity = Inr dynamoEntity"
    and res: "\<forall>attr \<in> set (getUniqueAttributesForEntity conn (entity_constructor entity)).
                truthy (attributeValue entity attr)"
  shows "let tbl = entity_table metadata;
             uniqueAttributes = getUniqueAttributesForEntity conn (entity_constructor entity);
             cond = buildConditionExpression d (attributeNotExist (partitionKey tbl));
             plain = [(''Item'', JObj (spread [] dynamoEntity)), (''TableName'', JStr (table_name tbl))];
             entityPut = (if overwrites options then plain else spread plain cond);
             shadowPuts =
               map (\<lambda>attr. spread
                      [(''Item'', JObj (getUniqueAttributePrimaryKey d tbl (entity_name metadata)
                                          (attr_name attr) (attributeValue entity attr))),
                       (''TableName'', JStr (table_name tbl))] cond)
                 uniqueAttributes
         in (uniqueAttributes \<noteq> [] \<longrightarrow>
               toDynamoPutItem d conn entity options = Inr (PutItems (entityPut # shadowPuts))
               \<and> length (entityPut # shadowPuts) = length uniqueAttributes + 1)
          \<and> (uniqueAttributes = [] \<longrightarrow>
               toDynamoPutItem d conn entity options = Inr (PutItem entityPut))"
  using md ent
  by (simp add: toDynamoPutItem_def Let_def uniqueAttributePutItems_all[OF res]
        uniqueAttributePutItem_def)

theorem put_unique_attributes_witness:
  "getEntityByTarget unique_connection ''User''
     = Inr (user_metadata sample_table
              [plain_attribute ''id'', unique_attribute ''email'', unique_attribute ''handle''])
   \<and> toDynamoEntity sample_collaborators
        \<lparr>entity_constructor = ''User'',
         entity_fields = [(''id'', JStr ''1''), (''email'', JStr ''a@b.c''), (''handle'', JStr ''ann'')]\<rparr>
     = Inr [(''id'', JStr ''1''), (''email'', JStr ''a@b.c''), (''handle'', JStr ''ann'')]
   \<and> getUniqueAttributesForEntity unique_connection ''User''
     = [unique_attribute ''email'', unique_attribute ''handle'']
   \<and> truthy (attributeValue
        \<lparr>entity_constructor = ''User'',
         entity_fields = [(''id'', JStr ''1''), (''email'', JStr ''a@b.c''), (''handle'', JStr ''ann'')]\<rparr>
        (unique_attribute ''email''))
   \<and> truthy (attributeValue
        \<lparr>entity_constructor = ''User'',
         entity_fields = [(''id'', JStr ''1''), (''email'', JStr ''a@b.c''), (''handle'', JStr ''ann'')]\<rparr>
        (unique_attribute ''handle''))
   \<and> toDynamoPutItem sample_collaborators unique_connection
        \<lparr>entity_constructor = ''User'',
         entity_fields = [(''id'', JStr ''1''), (''email'', JStr ''a@b.c''), (''handle'', JStr ''ann'')]\<rparr>
        None
     = Inr (PutItems
         [[(''Item'', JObj [(''id'', JStr ''1''), (''email'', JStr ''a@b.c''), (''handle'', JStr ''ann'')]),
           (''TableName'', JStr ''users''),
           (''ConditionExpression'', JArr [JStr ''attribute_not_exists'', JStr ''PK''])],
          [(''Item'', JObj [(''PK'', JArr [JStr ''user'', JStr ''email'', JStr ''a@b.c''])]),
           (''TableName'', JStr ''users''),
           (''ConditionExpression'', JArr [JStr ''attribute_not_exists'', JStr ''PK''])],
          [(''Item'', JObj [(''PK'', JArr [JStr ''user'', JStr ''handle'', JStr ''ann''])]),
           (''TableName'', JStr ''users''),
           (''ConditionExpression'', JArr [JStr ''attribute_not_exists'', JStr ''PK''])]])"
  using put_unique_attributes [of unique_connection
      "\<lparr>entity_constructor = ''User'',
        entity_fields = [(''id'', JStr ''1''), (''email'', JStr ''a@b.c''), (''handle'', JStr ''ann'')]\<rparr>"
      "user_metadata sample_table
         [plain_attribute ''id'', unique_attribute ''email'', unique_attribute ''handle'']"
      sample_collaborators
      "[(''id'', JStr ''1''), (''email'', JStr ''a@b.c''), (''handle'', JStr ''ann'')]" None]
  by (simp add: Let_def unique_connection_def connection_of_def user_metadata_def
        sample_table_def user_table_def plain_attribute_def unique_attribute_def
        sample_collaborators_def getEntityByTarget_def getUniqueAttributesForEntity_def
        attributeValue_def attr_value_def nullish_or_def overwrites_def get_prop_def
        spread_def)

text \<open>
  C3. Whenever \<open>toDynamoPutItem\<close> returns: without options or with \<open>overwriteIfExists\<close>
  false, the entity's put request is the plain request (\<open>Item\<close>, \<open>TableName\<close>) spread with
  the condition expression built from "attribute not exists" on the table's partition key;
  with \<open>overwriteIfExists\<close> true it is the plain request, with those two properties only;
  every shadow put request is spread with that same condition expression, whatever the
  options are.
\<close>

theorem put_condition:
  assumes md: "getEntityByTarget conn (entity_constructor entity) = Inr metadata"
    and ret: "toDynamoPutItem d conn entity options = Inr res"
  shows "\<exists>dynamoEntity. toDynamoEntity d entity = Inr dynamoEntity \<and>
          (let tbl = entity_table metadata;
               cond = buildConditionExpression d (attributeNotExist (partitionKey tbl));
               plain = [(''Item'', JObj (spread [] dynamoEntity)), (''TableName'', JStr (table_name tbl))]
           in (\<not> overwrites options \<longrightarrow> main_put res = spread plain cond)
            \<and> (overwrites options \<longrightarrow> main_put res = plain)
            \<and> (\<forall>s \<in> set (shadow_puts res).
                  \<exists>key. s = spread [(''Item'', JObj key), (''TableName'', JStr (table_name tbl))] cond))"
  using md ret
  by (auto simp: toDynamoPutItem_def Let_def uniqueAttributePutItem_def
      split: sum.splits if_splits dest!: uniqueAttributePutItems_Inr)

theorem put_condition_witness:
  "getEntityByTarget unique_connection ''User''
     = Inr (user_metadata sample_table
              [plain_attribute ''id'', unique_attribute ''email'', unique_attribute ''handle''])
   \<and> toDynamoPutItem sample_collaborators unique_connection
        \<lparr>entity_constructor = ''User'',
         entity_fields = [(''id'', JStr ''1''), (''email'', JStr ''a@b.c''), (''handle'', JStr ''ann'')]\<rparr>
        (Some \<lparr>overwriteIfExists = True\<rparr>)
     = Inr (PutItems
         [[(''Item'', JObj [(''id'', JStr ''1''), (''email'', JStr ''a@b.c''), (''handle'', JStr ''ann'')]),
           (''TableName'', JStr ''users'')],
          [(''Item'', JObj [(''PK'', JArr [JStr ''user'', JStr ''email'', JStr ''a@b.c''])]),
           (''TableName'', JStr ''users''),
           (''ConditionExpression'', JArr [JStr ''attribute_not_exists'', JStr ''PK''])],
          [(''Item'', JObj [(''PK'', JArr [JStr ''user'', JStr ''handle'', JStr ''ann''])]),
           (''TableName'', JStr ''users''),
           (''ConditionExpression'', JArr [JStr ''attribute_not_exists'', JStr ''PK''])]])
   \<and> (\<exists>dynamoEntity.
         toDynamoEntity sample_collaborators
           \<lparr>entity_constructor = ''User'',
            entity_fields = [(''id'', JStr ''1''), (''email'', JStr ''a@b.c''), (''handle'', JStr ''ann'')]\<rparr>
         = Inr dynamoEntity
       \<and> main_put (PutItems
         [[(''Item'', JObj [(''id'', JStr ''1''), (''email'', JStr ''a@b.c''), (''handle'', JStr ''ann'')]),
           (''TableName'', JStr ''users'')],
          [(''Item'', JObj [(''PK'', JArr [JStr ''user'', JStr ''email'', JStr ''a@b.c''])]),
           (''TableName'', JStr ''users''),
           (''ConditionExpression'', JArr [JStr ''attribute_not_exists'', JStr ''PK''])],
          [(''Item'', JObj [(''PK'', JArr [JStr ''user'', JStr ''handle'', JStr ''ann''])]),
           (''TableName'', JStr ''users''),
           (''ConditionExpression'', JArr [JStr ''attribute_not_exists'', JStr ''PK''])]])
         = [(''Item'', JObj (spread [] dynamoEntity)), (''TableName'', JStr ''users'')])"
  using put_condition [of unique_connection
      "\<lparr>entity_constructor = ''User'',
        entity_fields = [(''id'', JStr ''1''), (''email'', JStr ''a@b.c''), (''handle'', JStr ''ann'')]\<rparr>"
      "user_metadata sample_table
         [plain_attribute ''id'', unique_attribute ''email'', unique_attribute ''handle'']"
      sample_collaborators "Some \<lparr>overwriteIfExists = True\<rparr>"]
  by (simp add: Let_def toDynamoPutItem_def uniqueAttributePutItem_def unique_connection_def
        connection_of_def user_metadata_def
        sample_table_def user_table_def plain_attribute_def unique_attribute_def
        sample_collaborators_def getEntityByTarget_def getUniqueAttributesForEntity_def
        attributeValue_def attr_value_def nullish_or_def overwrites_def get_prop_def
        spread_def)

section \<open>Sort key condition of a query\<close>




text \<open>
  C4. The query of a table without sort key, with options that hold a limit and no key
  condition: the code raises the error of a sort key query.
\<close>

theorem limit_only_query_rejected:
  "toDynamoQueryItem sample_collaborators partition_only_connection ''User''
     [(''id'', JStr ''1'')] (Some \<lparr>keyCondition = None, limit = Some 10, orderBy = None\<rparr>)
   = Inl UnsupportedSortKeyConditionError"
  by (simp add: toDynamoQueryItem_def indexToQuery_def parsedPartitionKey_def
        parsedSortKey_def queryIndex_def usesCompositeKey_def isEmptyOptions_def
        partition_only_connection_def connection_of_def user_metadata_def sample_table_def
        user_table_def plain_attribute_def sample_collaborators_def getEntityByTarget_def
        parseKey_spec_def token_value_def get_prop_def)

section \<open>Update\<close>

text \<open>
  C5. An update whose body assigns the empty string to the unique attribute \<open>email\<close>: the
  check of the unique attributes tests the truthiness of \<^verbatim>\<open>body[attr.name]\<close>, so no error
  is raised and the update request that sets \<open>email\<close> is returned.
\<close>

theorem falsy_unique_value_updated:
  "toDynamoUpdateItem sample_collaborators unique_connection ''User''
     [(''id'', JStr ''1'')] [(''email'', JStr '''')] None w
   = (Inr [(''TableName'', JStr ''users''),
           (''Key'', JObj [(''PK'', JStr ''USER#1''), (''SK'', JStr ''USER#1'')]),
           (''UpdateExpression'', JObj [(''email'', JStr '''')]),
           (''ExpressionAttributeNames'', JObj []),
           (''ExpressionAttributeValues'', JObj []),
           (''ReturnValues'', JStr ''ALL_NEW'')], w)"
  by (simp add: toDynamoUpdateItem_def nestedKeySeparator_of_def returnValues_of_def
        unique_connection_def connection_of_def
        user_metadata_def sample_table_def user_table_def plain_attribute_def
        unique_attribute_def sample_collaborators_def hasMetadata_def
        getEntityByTarget_def getUniqueAttributesForEntity_def getAutoUpdateAttributes_def
        isAutoUpdate_def getParsedPrimaryKey_spec_def parseKey_spec_def token_value_def
        get_prop_def spread_def isEmptyObject_def)

text \<open>
  C8. An update of an entity whose auto-update attribute \<open>id\<close> is also an attribute of the
  primary key input, there with the value \<open>0\<close>: the collision check tests the truthiness of
  \<^verbatim>\<open>primaryKey[attr.name]\<close>, so no error is raised, a value is generated for \<open>id\<close> and the
  update request that sets it is returned.
\<close>

theorem falsy_key_value_not_a_collision:
  "toDynamoUpdateItem sample_collaborators (auto_update_connection ''id'') ''User''
     [(''id'', JNum 0)] [(''name'', JStr ''Ann'')] None 5
   = (Inr [(''TableName'', JStr ''users''),
           (''Key'', JObj [(''PK'', JStr ''USER#0''), (''SK'', JStr ''USER#0'')]),
           (''UpdateExpression'', JObj [(''name'', JStr ''Ann''), (''id'', JNum 5)]),
           (''ExpressionAttributeNames'', JObj []),
           (''ExpressionAttributeValues'', JObj []),
           (''ReturnValues'', JStr ''ALL_NEW'')], 6)"
  by (simp add: toDynamoUpdateItem_def nestedKeySeparator_of_def returnValues_of_def
        auto_update_connection_def connection_of_def
        user_metadata_def sample_table_def user_table_def plain_attribute_def
        auto_update_attribute_def sample_collaborators_def hasMetadata_def
        getEntityByTarget_def getUniqueAttributesForEntity_def getAutoUpdateAttributes_def
        isAutoUpdate_def getParsedPrimaryKey_spec_def parseKey_spec_def token_value_def
        show_int_def get_prop_def spread_def isEmptyObject_def)

section \<open>Determinism\<close>

text \<open>
  C6, as the code has it. \<open>toDynamoGetItem\<close>, \<open>toDynamoDeleteItem\<close>, \<open>toDynamoPutItem\<close> and
  \<open>toDynamoQueryItem\<close> do not depend on the generator of fresh values: replacing it
  changes no result. \<open>toDynamoUpdateItem\<close> on an entity without auto-update attributes
  returns the same result for every generator and every generator state, and leaves the
  state as it was.
\<close>

theorem generator_independence:
  "toDynamoGetItem (d\<lparr>autoGenerateValue := g\<rparr>) conn c k = toDynamoGetItem d conn c k
   \<and> toDynamoDeleteItem (d\<lparr>autoGenerateValue := g\<rparr>) conn c k = toDynamoDeleteItem d conn c k
   \<and> toDynamoPutItem (d\<lparr>autoGenerateValue := g\<rparr>) conn entity po = toDynamoPutItem d conn entity po
   \<and> toDynamoQueryItem (d\<lparr>autoGenerateValue := g\<rparr>) conn c pka qo = toDynamoQueryItem d conn c pka qo
   \<and> (getAutoUpdateAttributes conn c = [] \<longrightarrow>
        toDynamoUpdateItem (d\<lparr>autoGenerateValue := g\<rparr>) conn c k body uo w
        = (fst (toDynamoUpdateItem d conn c k body uo w'), w))"
proof -
  have 1: "toDynamoGetItem (d\<lparr>autoGenerateValue := g\<rparr>) conn c k = toDynamoGetItem d conn c k"
    by (simp add: toDynamoGetItem_def cong: sum.case_cong)
  have 2: "toDynamoDeleteItem (d\<lparr>autoGenerateValue := g\<rparr>) conn c k = toDynamoDeleteItem d conn c k"
    by (simp add: toDynamoDeleteItem_def cong: sum.case_cong)
  have 3: "toDynamoPutItem (d\<lparr>autoGenerateValue := g\<rparr>) conn entity po = toDynamoPutItem d conn entity po"
    by (simp add: toDynamoPutItem_def uniqueAttributePutItems_generator cong: sum.case_cong)
  have 4: "toDynamoQueryItem (d\<lparr>autoGenerateValue := g\<rparr>) conn c pka qo = toDynamoQueryItem d conn c pka qo"
    by (simp add: toDynamoQueryItem_def parsedPartitionKey_def
          cong: sum.case_cong option.case_cong list.case_cong prod.case_cong if_cong)
  have 5: "getAutoUpdateAttributes conn c = [] \<longrightarrow>
        toDynamoUpdateItem (d\<lparr>autoGenerateValue := g\<rparr>) conn c k body uo w
        = (fst (toDynamoUpdateItem d conn c k body uo w'), w)"
    by (simp add: toDynamoUpdateItem_def Let_def split: sum.splits option.splits)
  from 1 2 3 4 5 show ?thesis by blast
qed

theorem generator_independence_witness:
  "getAutoUpdateAttributes sample_connection ''User'' = []
   \<and> toDynamoUpdateItem (sample_collaborators\<lparr>autoGenerateValue := (\<lambda>s w. (JStr s, w + 2))\<rparr>)
        sample_connection ''User'' [(''id'', JStr ''1'')] [(''name'', JStr ''Ann'')] None 3
     = (fst (toDynamoUpdateItem sample_collaborators sample_connection ''User''
               [(''id'', JStr ''1'')] [(''name'', JStr ''Ann'')] None 8), 3)
   \<and> toDynamoGetItem (sample_collaborators\<lparr>autoGenerateValue := (\<lambda>s w. (JStr s, w + 2))\<rparr>)
        sample_connection ''User'' [(''id'', JStr ''1'')]
     = toDynamoGetItem sample_collaborators sample_connection ''User'' [(''id'', JStr ''1'')]"
  using generator_independence [where d = sample_collaborators
      and g = "\<lambda>s w. (JStr s, w + 2)" and conn = sample_connection and c = "''User''"
      and k = "[(''id'', JStr ''1'')]" and body = "[(''name'', JStr ''Ann'')]" and uo = None
      and w = 3 and w' = 8]
  by (simp add: getAutoUpdateAttributes_def isAutoUpdate_def sample_connection_def
        connection_of_def User_def user_metadata_def plain_attribute_def)

text \<open>
  C6, as stated, fails for the update of an entity with an auto-update attribute: the
  request holds the generated value, and a second invocation with the same metadata and
  inputs, started in the generator state the first one left, returns another request.
\<close>

theorem update_differs_between_invocations:
  "fst (toDynamoUpdateItem sample_collaborators (auto_update_connection ''updatedAt'') ''User''
          [(''id'', JStr ''1'')] [(''name'', JStr ''Ann'')] None
          (snd (toDynamoUpdateItem sample_collaborators (auto_update_connection ''updatedAt'')
                  ''User'' [(''id'', JStr ''1'')] [(''name'', JStr ''Ann'')] None 0)))
   \<noteq> fst (toDynamoUpdateItem sample_collaborators (auto_update_connection ''updatedAt'') ''User''
            [(''id'', JStr ''1'')] [(''name'', JStr ''Ann'')] None 0)"
  by (simp add: toDynamoUpdateItem_def nestedKeySeparator_of_def returnValues_of_def
        auto_update_connection_def connection_of_def
        user_metadata_def sample_table_def user_table_def plain_attribute_def
        auto_update_attribute_def sample_collaborators_def hasMetadata_def
        getEntityByTarget_def getUniqueAttributesForEntity_def getAutoUpdateAttributes_def
        isAutoUpdate_def getParsedPrimaryKey_spec_def parseKey_spec_def token_value_def
        get_prop_def spread_def isEmptyObject_def)

end
